theory Spec2Isabelle
  imports Complex_Main
begin

section \<open>Number model, exceptions and spreadsheet cells\<close>

text \<open>
  The program \<^verbatim>\<open>ash_calc.py\<close> is a Python 3 script. Its floats are modelled as
  \<^typ>\<open>real\<close>: finite and exact, so rounding, overflow to infinity and NaN are outside
  the model, and so are the exceptions that follow from the range of a double in
  arithmetic (\<^verbatim>\<open>**\<close> raising \<^verbatim>\<open>OverflowError\<close>, a result that underflows to zero and
  then divides). The general statements about arithmetic below are therefore made for
  bounded magnitudes, at which the script's floats do neither. Python integers are \<^typ>\<open>int\<close>. A raised exception is the \<open>Inl\<close> branch
  of a sum; the exception classes that the script's own operations can raise are listed
  in \<open>exn\<close>, and \<open>LibraryError\<close> stands for whatever else a called package raises.
\<close>

datatype exn =
    TypeError
  | ValueError
  | ZeroDivisionError
  | OverflowError
  | FileNotFoundError
  | LibraryError

text \<open>
  The value of an openpyxl cell: \<^verbatim>\<open>None\<close> for an empty cell, a \<^verbatim>\<open>bool\<close>, an \<^verbatim>\<open>int\<close>,
  a \<^verbatim>\<open>float\<close>, a \<^verbatim>\<open>str\<close> (text, error codes and formulae), or another object
  (dates, times) on which \<^verbatim>\<open>float()\<close> is not defined.
\<close>

datatype cell_value =
    NoneV
  | BoolV bool
  | IntV int
  | FloatV real
  | StrV string
  | ObjectV

text \<open>
  The builtin \<^verbatim>\<open>float(value)\<close>. Its parser for strings belongs to the interpreter and
  is a parameter \<open>pf\<close>: \<open>pf s = None\<close> where \<^verbatim>\<open>float(s)\<close> raises \<^verbatim>\<open>ValueError\<close>.
  \<^verbatim>\<open>float(None)\<close> and \<^verbatim>\<open>float\<close> of a date raise \<^verbatim>\<open>TypeError\<close>; \<^verbatim>\<open>bool\<close> is a subclass
  of \<^verbatim>\<open>int\<close>; an \<^verbatim>\<open>int\<close> that rounds beyond the largest double
  (\<open>2 ^ 1024 - 2 ^ 971\<close>) raises \<^verbatim>\<open>OverflowError\<close>.
\<close>

fun py_float :: "(string \<Rightarrow> real option) \<Rightarrow> cell_value \<Rightarrow> exn + real" where
  "py_float pf NoneV = Inl TypeError"
| "py_float pf (BoolV b) = Inr (if b then 1 else 0)"
| "py_float pf (IntV i) =
     (if \<bar>i\<bar> < 2 ^ 1024 - 2 ^ 970 then Inr (of_int i) else Inl OverflowError)"
| "py_float pf (FloatV x) = Inr x"
| "py_float pf (StrV s) = (case pf s of Some x \<Rightarrow> Inr x | None \<Rightarrow> Inl ValueError)"
| "py_float pf ObjectV = Inl TypeError"

text \<open>
  A worksheet gives a value to every cell; \<^verbatim>\<open>sheet.cell(row, column)\<close> raises
  \<^verbatim>\<open>ValueError\<close> when a coordinate is below 1 and when the row is above 1048576,
  the last row of a sheet.
\<close>

type_synonym worksheet = "int \<Rightarrow> int \<Rightarrow> cell_value"

definition cell :: "worksheet \<Rightarrow> int \<Rightarrow> int \<Rightarrow> exn + cell_value" where
  "cell sheet row column =
     (if row < 1 \<or> column < 1 then Inl ValueError
      else if 1048576 < row then Inl ValueError
      else Inr (sheet row column))"

text \<open>
  Sequencing of steps that may raise: the first exception ends the computation.
\<close>

definition bind :: "exn + 'a \<Rightarrow> ('a \<Rightarrow> exn + 'b) \<Rightarrow> exn + 'b" where
  "bind m f = (case m of Inl e \<Rightarrow> Inl e | Inr x \<Rightarrow> f x)"

section \<open>The external psychrometric library\<close>

text \<open>
  \<^verbatim>\<open>psychrolib\<close> is a third-party package and not part of the repository. The functions
  the script calls are the fields of a record that every operation below takes as a
  parameter; each returns a float or raises.
\<close>

record psychrolib =
  GetTWetBulbFromRelHum :: "real \<Rightarrow> real \<Rightarrow> real \<Rightarrow> exn + real"
  CalcPsychrometricsFromTWetBulb ::
    "real \<Rightarrow> real \<Rightarrow> real \<Rightarrow> exn + (real \<times> real \<times> real \<times> real \<times> real \<times> real \<times> real)"
  GetDryAirEnthalpy :: "real \<Rightarrow> exn + real"
  GetMoistAirDensity :: "real \<Rightarrow> real \<Rightarrow> real \<Rightarrow> exn + real"
  GetStandardAtmPressure :: "real \<Rightarrow> exn + real"

text \<open>
  What surrounds the script: the files it can open (the active sheet of the workbook at
  a path, or the exception \<^verbatim>\<open>openpyxl.load_workbook\<close> raises), the interpreter's parser
  of float literals, and the library.
\<close>

record world =
  load_workbook :: "string \<Rightarrow> exn + worksheet"
  float_of_str :: "string \<Rightarrow> real option"
  lib :: psychrolib

section \<open>The wrappers around the library (lines 18-164)\<close>

text \<open>
  Each wrapper hands its arguments to one library function. The three that the report
  computation never calls (\<^verbatim>\<open>calculate_humidity_ratio\<close>,
  \<^verbatim>\<open>calculate_partial_vapor_pressure\<close>, \<^verbatim>\<open>calculate_wet_air_enthalpy\<close>) are left out.
\<close>

definition calculate_wet_bulb_temperature ::
  "psychrolib \<Rightarrow> real \<Rightarrow> real \<Rightarrow> real \<Rightarrow> exn + real" where
  "calculate_wet_bulb_temperature L dry_bulb_temperature relative_humidity pressure =
     (let relative_humidity_decimal = relative_humidity / 100
      in GetTWetBulbFromRelHum L dry_bulb_temperature relative_humidity_decimal pressure)"

definition calculate_dry_air_enthalpy :: "psychrolib \<Rightarrow> real \<Rightarrow> exn + real" where
  "calculate_dry_air_enthalpy L dry_bulb_temperature =
     GetDryAirEnthalpy L dry_bulb_temperature"

definition calculate_air_density ::
  "psychrolib \<Rightarrow> real \<Rightarrow> real \<Rightarrow> real \<Rightarrow> exn + real" where
  "calculate_air_density L dry_bulb_temperature humidity_ratio pressure =
     GetMoistAirDensity L dry_bulb_temperature humidity_ratio pressure"

definition calculate_psychrometrics ::
  "psychrolib \<Rightarrow> real \<Rightarrow> real \<Rightarrow> real
     \<Rightarrow> exn + (real \<times> real \<times> real \<times> real \<times> real \<times> real \<times> real)" where
  "calculate_psychrometrics L dry_bulb_temperature wet_bulb_temperature pressure =
     CalcPsychrometricsFromTWetBulb L dry_bulb_temperature wet_bulb_temperature pressure"

definition calculate_pressure_from_altitude :: "psychrolib \<Rightarrow> real \<Rightarrow> exn + real" where
  "calculate_pressure_from_altitude L altitude = GetStandardAtmPressure L altitude"

section \<open>Reading the workbook (lines 168-234)\<close>

text \<open>
  The loop of \<^verbatim>\<open>read_excel_data\<close> over \<^verbatim>\<open>range(num_of_rows)\<close>, with \<open>data_list\<close> as
  accumulator. The cell is fetched before the \<^verbatim>\<open>try\<close>, so a bad coordinate raises;
  inside the \<^verbatim>\<open>try\<close> only \<^verbatim>\<open>ValueError\<close> and \<^verbatim>\<open>TypeError\<close> are caught and replaced
  by \<open>0\<close>.
\<close>

fun read_rows ::
  "(string \<Rightarrow> real option) \<Rightarrow> worksheet \<Rightarrow> int \<Rightarrow> int \<Rightarrow> int list \<Rightarrow> real list
     \<Rightarrow> exn + real list" where
  "read_rows pf sheet col start_row [] data_list = Inr data_list"
| "read_rows pf sheet col start_row (row # rows) data_list =
     (case cell sheet (row + start_row) col of
        Inl e \<Rightarrow> Inl e
      | Inr v \<Rightarrow>
          (case py_float pf v of
             Inr numeric_value \<Rightarrow>
               read_rows pf sheet col start_row rows (data_list @ [numeric_value])
           | Inl e \<Rightarrow>
               if e = ValueError \<or> e = TypeError
               then read_rows pf sheet col start_row rows (data_list @ [0])
               else Inl e))"

definition read_excel_data :: "world \<Rightarrow> string \<Rightarrow> int \<Rightarrow> int \<Rightarrow> int \<Rightarrow> exn + real list" where
  "read_excel_data w file_path col start_row num_of_rows =
     bind (load_workbook w file_path) (\<lambda>sheet.
       read_rows (float_of_str w) sheet col start_row [0..num_of_rows - 1] [])"

text \<open>
  \<^verbatim>\<open>get_altitude_and_airflow\<close> converts six cells with no \<^verbatim>\<open>try\<close> around them.
\<close>

definition float_cell :: "world \<Rightarrow> worksheet \<Rightarrow> int \<Rightarrow> int \<Rightarrow> exn + real" where
  "float_cell w sheet row column =
     bind (cell sheet row column) (py_float (float_of_str w))"

definition get_altitude_and_airflow ::
  "world \<Rightarrow> string \<Rightarrow> exn + (real \<times> real \<times> real \<times> real \<times> real \<times> real)" where
  "get_altitude_and_airflow w file_path =
     bind (load_workbook w file_path) (\<lambda>sheet.
     bind (float_cell w sheet 5 3) (\<lambda>altitude.
     bind (float_cell w sheet 6 3) (\<lambda>air_flow.
     bind (float_cell w sheet 5 7) (\<lambda>resin_diameter.
     bind (float_cell w sheet 6 7) (\<lambda>resin_mass.
     bind (float_cell w sheet 7 7) (\<lambda>resin_density.
     bind (float_cell w sheet 9 7) (\<lambda>chamber_diameter.
       Inr (altitude, air_flow, resin_diameter, resin_mass, resin_density,
            chamber_diameter))))))))"

section \<open>Balance arithmetic (lines 237-303)\<close>

definition calculate_energy_flux :: "real \<Rightarrow> real \<Rightarrow> real" where
  "calculate_energy_flux moist_air_enthalpy mass_flow = moist_air_enthalpy * mass_flow"

definition calculate_co2_flow :: "real \<Rightarrow> real \<Rightarrow> real" where
  "calculate_co2_flow co2_level air_flow = co2_level * air_flow"

definition calculate_co2_change :: "real \<Rightarrow> real \<Rightarrow> real" where
  "calculate_co2_change co2_flow_inlet co2_flow_outlet = co2_flow_outlet - co2_flow_inlet"

definition calculate_co2_change_label :: "real \<Rightarrow> string" where
  "calculate_co2_change_label co2_change =
     (if co2_change > 0 then ''CO2 Release''
      else if co2_change < 0 then ''CO2 Capture''
      else ''No Change in CO2'')"

section \<open>The report computation (lines 306-456)\<close>

text \<open>
  Python's \<^verbatim>\<open>/\<close> on floats raises \<^verbatim>\<open>ZeroDivisionError\<close> for a zero divisor. In
  exact arithmetic the divisor is zero only when an input is; in the script a divisor
  is also zero when a tiny power has underflowed.
\<close>

definition py_div :: "real \<Rightarrow> real \<Rightarrow> exn + real" where
  "py_div x y = (if y = 0 then Inl ZeroDivisionError else Inr (x / y))"

text \<open>
  \<^verbatim>\<open>process_file\<close> is one long body. Its locals are grouped here by the blocks the
  source separates with comments: the resin block (lines 319-331), one data set
  (lines 334-344 for the inlet and, with the same code, 347-357 for the outlet) and the
  chamber block (lines 372-376). The records hold the locals that the output message
  prints.
\<close>

record resin_values =
  single_sphere_surface_area :: real
  single_sphere_volume :: real
  total_resin_volume :: real
  rough_number_of_spheres :: real
  total_surface_area :: real

definition resin_block :: "real \<Rightarrow> real \<Rightarrow> real \<Rightarrow> exn + resin_values" where
  "resin_block resin_diameter resin_mass resin_density =
     (let resin_diameter_m = resin_diameter / 1000;
          resin_radius = resin_diameter_m / 2;
          sphere_surface_area = pi * resin_diameter_m ^ 2;
          sphere_volume = (4 / 3) * pi * resin_radius ^ 3
      in bind (py_div resin_density resin_mass) (\<lambda>density_per_mass.
         bind (py_div 1 density_per_mass) (\<lambda>resin_volume.
         bind (py_div resin_volume sphere_volume) (\<lambda>number_of_spheres.
           Inr \<lparr>single_sphere_surface_area = sphere_surface_area,
                single_sphere_volume = sphere_volume,
                total_resin_volume = resin_volume,
                rough_number_of_spheres = number_of_spheres,
                total_surface_area = number_of_spheres * sphere_surface_area\<rparr>))))"

record chamber_values =
  chamber_area :: real
  c_area_m2 :: real
  air_m3_s :: real
  chamber_speed :: real

definition chamber_block :: "real \<Rightarrow> real \<Rightarrow> exn + chamber_values" where
  "chamber_block chamber_diameter air_flow =
     (let c_radius = chamber_diameter / 2;
          area = pi * (c_radius ^ 2);
          area_m2 = area / 10000;
          flow_m3_s = air_flow / 1000
      in bind (py_div flow_m3_s area_m2) (\<lambda>speed.
           Inr \<lparr>chamber_area = area, c_area_m2 = area_m2, air_m3_s = flow_m3_s,
                chamber_speed = speed\<rparr>))"

record station =
  dry_bulb_temperature :: real
  relative_humidity :: real
  co2_level :: real
  wet_bulb_temperature :: real
  humidity_ratio :: real
  dew_point_temperature :: real
  calc_relative_humidity :: real
  partial_pressure :: real
  moist_air_enthalpy :: real
  specific_volume :: real
  degree_of_saturation :: real
  dry_air_enthalpy :: real
  air_density :: real
  co2_flow :: real

text \<open>
  Unpacking the list returned by \<^verbatim>\<open>read_excel_data\<close> into three names raises
  \<^verbatim>\<open>ValueError\<close> unless it has three elements.
\<close>

definition data_set :: "world \<Rightarrow> string \<Rightarrow> int \<Rightarrow> real \<Rightarrow> real \<Rightarrow> exn + station" where
  "data_set w file_path start_row pressure air_flow =
     bind (read_excel_data w file_path 3 start_row 3) (\<lambda>data.
       case data of
         [t_db, rh, co2] \<Rightarrow>
           bind (calculate_wet_bulb_temperature (lib w) t_db rh pressure) (\<lambda>t_wb.
           bind (calculate_psychrometrics (lib w) t_db t_wb pressure)
             (\<lambda>(hum_ratio, t_dew, calc_rh, p_vap, h_moist, v_spec, deg_sat).
           bind (calculate_dry_air_enthalpy (lib w) t_db) (\<lambda>h_dry.
           bind (calculate_air_density (lib w) t_db hum_ratio pressure) (\<lambda>density.
             Inr \<lparr>dry_bulb_temperature = t_db,
                  relative_humidity = rh,
                  co2_level = co2,
                  wet_bulb_temperature = t_wb,
                  humidity_ratio = hum_ratio,
                  dew_point_temperature = t_dew,
                  calc_relative_humidity = calc_rh,
                  partial_pressure = p_vap,
                  moist_air_enthalpy = h_moist,
                  specific_volume = v_spec,
                  degree_of_saturation = deg_sat,
                  dry_air_enthalpy = h_dry,
                  air_density = density,
                  co2_flow = calculate_co2_flow co2 air_flow\<rparr>))))
       | _ \<Rightarrow> Inl ValueError)"

record report =
  altitude :: real
  air_flow :: real
  resin_diameter :: real
  resin_mass :: real
  resin_density :: real
  chamber_diameter :: real
  pressure :: real
  resin :: resin_values
  inlet :: station
  outlet :: station
  co2_change :: real
  co2_change_label :: string
  mass_flow :: real
  energy_flux_inlet :: real
  energy_flux_outlet :: real
  chamber :: chamber_values

text \<open>
  The body of the \<^verbatim>\<open>try\<close>: the value is the content of the output message, as the
  record of the numbers it prints. Their formatting as text, and the differences
  between outlet and inlet that the message computes while formatting, are not
  modelled.
\<close>

definition process_file_body :: "world \<Rightarrow> string \<Rightarrow> exn + report" where
  "process_file_body w entry =
     (let file_path = entry @ ''.xlsx''
      in bind (get_altitude_and_airflow w file_path)
           (\<lambda>(alt, flow, r_diameter, r_mass, r_density, c_diameter).
         bind (calculate_pressure_from_altitude (lib w) alt) (\<lambda>p.
         bind (resin_block r_diameter r_mass r_density) (\<lambda>resin_vals.
         bind (data_set w file_path 8 p flow) (\<lambda>inl.
         bind (data_set w file_path 12 p flow) (\<lambda>outl.
           let change = calculate_co2_change (co2_flow inl) (co2_flow outl);
               label = calculate_co2_change_label change;
               m_flow = air_density outl * (flow / 1000);
               flux_inlet = calculate_energy_flux (moist_air_enthalpy inl) m_flow;
               flux_outlet = calculate_energy_flux (moist_air_enthalpy outl) m_flow
           in bind (chamber_block c_diameter flow) (\<lambda>chamber_vals.
                Inr \<lparr>altitude = alt,
                     air_flow = flow,
                     resin_diameter = r_diameter,
                     resin_mass = r_mass,
                     resin_density = r_density,
                     chamber_diameter = c_diameter,
                     pressure = p,
                     resin = resin_vals,
                     inlet = inl,
                     outlet = outl,
                     co2_change = change,
                     co2_change_label = label,
                     mass_flow = m_flow,
                     energy_flux_inlet = flux_inlet,
                     energy_flux_outlet = flux_outlet,
                     chamber = chamber_vals\<rparr>)))))))"

text \<open>
  The two widgets the function touches. \<^verbatim>\<open>process_file\<close> returns \<^verbatim>\<open>None\<close>; what its
  caller can observe is whether it raised and the state of the widgets. The bare
  \<^verbatim>\<open>except: pass\<close> turns every exception of the body into a normal return.
\<close>

record gui =
  entry_file_path :: string
  text_output :: "report option"

definition process_file :: "world \<Rightarrow> gui \<Rightarrow> exn + gui" where
  "process_file w g =
     (case process_file_body w (entry_file_path g) of
        Inr output_message \<Rightarrow> Inr (g\<lparr>text_output := Some output_message\<rparr>)
      | Inl e \<Rightarrow> Inr g)"

section \<open>A concrete world for closed examples\<close>

text \<open>
  One instance of the string parser: signed decimal literals with an optional fraction
  and exponent, surrounded by optional white space. (Python's \<^verbatim>\<open>float\<close> accepts in
  addition digit-group underscores and the names of the non-finite floats.)
\<close>

definition is_digit :: "char \<Rightarrow> bool" where
  "is_digit c = (c \<in> set ''0123456789'')"

definition digits_val :: "string \<Rightarrow> nat" where
  "digits_val ds = foldl (\<lambda>n c. 10 * n + (of_char c - 48)) 0 ds"

definition is_space :: "char \<Rightarrow> bool" where
  "is_space c = (c \<in> set [CHR '' '', CHR 0x09, CHR 0x0A, CHR 0x0B, CHR 0x0C, CHR 0x0D])"

definition strip :: "string \<Rightarrow> string" where
  "strip s = rev (dropWhile is_space (rev (dropWhile is_space s)))"

definition signed :: "string \<Rightarrow> int \<times> string" where
  "signed s =
     (case s of
        [] \<Rightarrow> (1, [])
      | c # cs \<Rightarrow>
          if c = CHR ''-'' then (- 1, cs) else if c = CHR ''+'' then (1, cs) else (1, s))"

definition decimal_literal :: "string \<Rightarrow> real option" where
  "decimal_literal s =
     (let (sg, body) = signed (strip s);
          mant = takeWhile (\<lambda>c. c \<noteq> CHR ''e'' \<and> c \<noteq> CHR ''E'') body;
          rest = dropWhile (\<lambda>c. c \<noteq> CHR ''e'' \<and> c \<noteq> CHR ''E'') body;
          ip = takeWhile (\<lambda>c. c \<noteq> CHR ''.'') mant;
          fp = drop 1 (dropWhile (\<lambda>c. c \<noteq> CHR ''.'') mant);
          (esg, ex) = signed (drop 1 rest)
      in if list_all is_digit ip \<and> list_all is_digit fp \<and> length ip + length fp > 0
            \<and> (rest = [] \<or> (length ex > 0 \<and> list_all is_digit ex))
         then Some (of_int sg
                * (of_nat (digits_val ip) + of_nat (digits_val fp) / 10 ^ length fp)
                * (if esg < 0 then 1 / 10 ^ digits_val ex else 10 ^ digits_val ex))
         else None)"

text \<open>
  The SI branch of the package's \<^verbatim>\<open>GetStandardAtmPressure\<close>, as its documentation
  gives it (ASHRAE Handbook Fundamentals 2017, ch. 1, eqn 3):
  \<^verbatim>\<open>101325 * math.pow(1 - 2.25577e-05 * Altitude, 5.2559)\<close>, with no check of the
  altitude; \<^verbatim>\<open>math.pow\<close> raises \<^verbatim>\<open>ValueError\<close> for a negative base and a fractional
  exponent, and \<^verbatim>\<open>OverflowError\<close> when the power exceeds the range of a double. The
  formula is evaluated here in exact arithmetic: within a rounding error of the point
  where the base is zero, and of the point where the power overflows, the package may
  take the other branch.
\<close>

definition standard_atm_SI :: "real \<Rightarrow> exn + real" where
  "standard_atm_SI h =
     (let base = 1 - (225577 / 10 ^ 10) * h
      in if base < 0 then Inl ValueError
         else if 2 ^ 1024 \<le> base powr (52559 / 10000) then Inl OverflowError
         else Inr (101325 * base powr (52559 / 10000)))"

text \<open>
  A library instance for the examples: the pressure relation above, and fixed numbers as
  the answer of every other query.
\<close>

definition example_lib :: psychrolib where
  "example_lib =
     \<lparr>GetTWetBulbFromRelHum = (\<lambda>t rh p. Inr 18),
      CalcPsychrometricsFromTWetBulb =
        (\<lambda>t twb p. Inr (1 / 100, 14, 1 / 2, 1600, 50000, 17 / 20, 1 / 2)),
      GetDryAirEnthalpy = (\<lambda>t. Inr 25000),
      GetMoistAirDensity = (\<lambda>t hr p. Inr (6 / 5)),
      GetStandardAtmPressure = standard_atm_SI\<rparr>"

text \<open>
  A workbook laid out as the script expects, whose inlet CO2 cell (row 10, column 3)
  holds text; and one whose inlet temperature cell holds the integer \<open>2 ^ 1024\<close>.
\<close>

definition example_sheet :: worksheet where
  "example_sheet row column =
     (if column = 3 then
        (if row = 5 then IntV 0
         else if row = 6 then FloatV 2
         else if row = 8 then FloatV 25
         else if row = 9 then IntV 50
         else if row = 10 then StrV ''n/a''
         else if row = 12 then FloatV 24
         else if row = 13 then IntV 55
         else if row = 14 then IntV 400
         else NoneV)
      else if column = 7 then
        (if row = 5 then IntV 1
         else if row = 6 then IntV 1
         else if row = 7 then IntV 1000
         else if row = 9 then IntV 10
         else NoneV)
      else NoneV)"

definition huge_sheet :: worksheet where
  "huge_sheet row column =
     (if column = 3 \<and> row = 8 then IntV (2 ^ 1024) else example_sheet row column)"

definition example_world :: world where
  "example_world =
     \<lparr>load_workbook =
        (\<lambda>path. if path = ''run1.xlsx'' then Inr example_sheet
                else if path = ''huge.xlsx'' then Inr huge_sheet
                else Inl FileNotFoundError),
      float_of_str = decimal_literal,
      lib = example_lib\<rparr>"

text \<open>
  What a cell contributes to the list of \<^verbatim>\<open>read_excel_data\<close> when no exception
  escapes: its float, or \<open>0\<close>.
\<close>

definition float_or_zero :: "(string \<Rightarrow> real option) \<Rightarrow> cell_value \<Rightarrow> real" where
  "float_or_zero pf v = (case py_float pf v of Inr x \<Rightarrow> x | Inl e \<Rightarrow> 0)"

text \<open>
  The report the script computes for \<^verbatim>\<open>run1.xlsx\<close> in this world.
\<close>

definition example_report :: report where
  "example_report =
     \<lparr>altitude = 0,
      air_flow = 2,
      resin_diameter = 1,
      resin_mass = 1,
      resin_density = 1000,
      chamber_diameter = 10,
      pressure = 101325,
      resin =
        \<lparr>single_sphere_surface_area = pi * (1 / 1000) ^ 2,
         single_sphere_volume = (4 / 3) * pi * (1 / 1000 / 2) ^ 3,
         total_resin_volume = 1 / 1000,
         rough_number_of_spheres = (1 / 1000) / ((4 / 3) * pi * (1 / 1000 / 2) ^ 3),
         total_surface_area =
           (1 / 1000) / ((4 / 3) * pi * (1 / 1000 / 2) ^ 3) * (pi * (1 / 1000) ^ 2)\<rparr>,
      inlet =
        \<lparr>dry_bulb_temperature = 25, relative_humidity = 50, co2_level = 0,
         wet_bulb_temperature = 18, humidity_ratio = 1 / 100, dew_point_temperature = 14,
         calc_relative_humidity = 1 / 2, partial_pressure = 1600,
         moist_air_enthalpy = 50000, specific_volume = 17 / 20,
         degree_of_saturation = 1 / 2, dry_air_enthalpy = 25000, air_density = 6 / 5,
         co2_flow = 0\<rparr>,
      outlet =
        \<lparr>dry_bulb_temperature = 24, relative_humidity = 55, co2_level = 400,
         wet_bulb_temperature = 18, humidity_ratio = 1 / 100, dew_point_temperature = 14,
         calc_relative_humidity = 1 / 2, partial_pressure = 1600,
         moist_air_enthalpy = 50000, specific_volume = 17 / 20,
         degree_of_saturation = 1 / 2, dry_air_enthalpy = 25000, air_density = 6 / 5,
         co2_flow = 800\<rparr>,
      co2_change = 800,
      co2_change_label = ''CO2 Release'',
      mass_flow = 3 / 1250,
      energy_flux_inlet = 120,
      energy_flux_outlet = 120,
      chamber =
        \<lparr>chamber_area = pi * 25, c_area_m2 = pi / 400, air_m3_s = 1 / 500,
         chamber_speed = 4 / (5 * pi)\<rparr>\<rparr>"

section \<open>Basic facts\<close>

lemma bind_Inl [simp]: "bind (Inl e) f = Inl e"
  by (simp add: bind_def)

lemma bind_Inr [simp]: "bind (Inr x) f = f x"
  by (simp add: bind_def)

lemma bind_eq_Inr: "bind m f = Inr y \<longleftrightarrow> (\<exists>x. m = Inr x \<and> f x = Inr y)"
  by (cases m) simp_all

lemma py_float_raises:
  "py_float pf v = Inl e \<Longrightarrow> e = TypeError \<or> e = ValueError \<or> e = OverflowError"
  by (cases v) (auto split: if_splits option.splits)

lemma float_or_zero_caught:
  "py_float pf v = Inl ValueError \<or> py_float pf v = Inl TypeError \<Longrightarrow> float_or_zero pf v = 0"
  by (auto simp: float_or_zero_def)

text \<open>A list has three elements, or it has fewer, or more.\<close>

lemma unpack3:
  obtains (three) a b c where "xs = [a, b, c]"
    | (nil) "xs = []" | (one) a where "xs = [a]" | (two) a b where "xs = [a, b]"
    | (more) a b c d ys where "xs = a # b # c # d # ys"
proof (cases xs)
  case Nil
  then show ?thesis using nil by simp
next
  case c1: (Cons a as)
  show ?thesis
  proof (cases as)
    case Nil
    then show ?thesis using c1 one by simp
  next
    case c2: (Cons b bs)
    show ?thesis
    proof (cases bs)
      case Nil
      then show ?thesis using c1 c2 two by simp
    next
      case c3: (Cons c cs)
      show ?thesis
      proof (cases cs)
        case Nil
        then show ?thesis using c1 c2 c3 three by simp
      next
        case (Cons d ds)
        then show ?thesis using c1 c2 c3 more by simp
      qed
    qed
  qed
qed

section \<open>The spreadsheet reader\<close>

text \<open>
  When the coordinates are on the sheet and no cell of the range overflows, the loop appends one
  number per row, in row order: the cell's float, or \<open>0\<close> where \<^verbatim>\<open>float\<close> raised
  \<^verbatim>\<open>ValueError\<close> or \<^verbatim>\<open>TypeError\<close>.
\<close>

lemma read_rows_all:
  assumes "1 \<le> col"
    and "\<forall>row \<in> set rows. 1 \<le> row + start_row \<and> row + start_row \<le> 1048576"
    and "\<forall>row \<in> set rows. py_float pf (sheet (row + start_row) col) \<noteq> Inl OverflowError"
  shows "read_rows pf sheet col start_row rows data_list =
           Inr (data_list @ map (\<lambda>row. float_or_zero pf (sheet (row + start_row) col)) rows)"
  using assms
proof (induction rows arbitrary: data_list)
  case Nil
  then show ?case by simp
next
  case (Cons row rows)
  have c: "cell sheet (row + start_row) col = Inr (sheet (row + start_row) col)"
    using Cons.prems by (simp add: cell_def)
  have ih: "\<And>acc. read_rows pf sheet col start_row rows acc =
      Inr (acc @ map (\<lambda>row. float_or_zero pf (sheet (row + start_row) col)) rows)"
    using Cons.IH Cons.prems by simp
  show ?case
  proof (cases "py_float pf (sheet (row + start_row) col)")
    case (Inr x)
    then show ?thesis by (simp add: c ih float_or_zero_def)
  next
    case (Inl e)
    moreover have "e \<noteq> OverflowError" using Inl Cons.prems by auto
    ultimately have "e = ValueError \<or> e = TypeError"
      using py_float_raises by blast
    then show ?thesis using Inl by (auto simp: c ih float_or_zero_def)
  qed
qed

lemma read_excel_data_all:
  assumes "load_workbook w file_path = Inr sheet"
    and "1 \<le> col" and "1 \<le> start_row" and "start_row + n \<le> 1048577"
    and "\<forall>k \<in> {0..<n}. py_float (float_of_str w) (sheet (start_row + k) col) \<noteq> Inl OverflowError"
  shows "read_excel_data w file_path col start_row n =
           Inr (map (\<lambda>k. float_or_zero (float_of_str w) (sheet (start_row + k) col)) [0..n - 1])"
proof -
  have "read_rows (float_of_str w) sheet col start_row [0..n - 1] [] =
      Inr ([] @ map (\<lambda>row. float_or_zero (float_of_str w) (sheet (row + start_row) col)) [0..n - 1])"
    using assms by (intro read_rows_all) (auto simp: add.commute)
  then show ?thesis using assms(1) by (simp add: read_excel_data_def add.commute)
qed

lemma read_excel_data_length:
  assumes "load_workbook w file_path = Inr sheet"
    and "1 \<le> col" and "1 \<le> start_row" and "start_row + n \<le> 1048577"
    and "\<forall>k \<in> {0..<n}. py_float (float_of_str w) (sheet (start_row + k) col) \<noteq> Inl OverflowError"
  shows "\<exists>data. read_excel_data w file_path col start_row n = Inr data \<and> length data = nat n"
  using read_excel_data_all [OF assms] by simp

subsection \<open>The example workbooks\<close>

lemma example_read:
  "read_excel_data example_world ''run1.xlsx'' 3 8 3 = Inr [25, 50, 0]"
  by (simp add: read_excel_data_def example_world_def upto.simps cell_def
      example_sheet_def decimal_literal_def strip_def is_space_def signed_def is_digit_def)

lemma example_read_outlet:
  "read_excel_data example_world ''run1.xlsx'' 3 12 3 = Inr [24, 55, 400]"
  by (simp add: read_excel_data_def example_world_def upto.simps cell_def example_sheet_def)

lemma example_sheet_no_overflow:
  "py_float decimal_literal (example_sheet row 3) \<noteq> Inl OverflowError"
  by (simp add: example_sheet_def decimal_literal_def strip_def is_space_def signed_def
      is_digit_def)

lemma example_altitude_and_airflow:
  "get_altitude_and_airflow example_world ''run1.xlsx'' = Inr (0, 2, 1, 1, 1000, 10)"
  by (simp add: get_altitude_and_airflow_def example_world_def float_cell_def cell_def
      example_sheet_def)

lemma example_missing:
  "process_file_body example_world ''missing'' = Inl FileNotFoundError"
  by (simp add: process_file_body_def get_altitude_and_airflow_def example_world_def)

text \<open>
  Claim C1, as amended. A cell on which \<^verbatim>\<open>float\<close> raises \<^verbatim>\<open>ValueError\<close> or
  \<^verbatim>\<open>TypeError\<close> (text that is no number, an empty cell, a date) does not make
  \<^verbatim>\<open>read_excel_data\<close> fail: when the workbook loads, the column lies between 1 and
  16384, the rows read lie between 1 and 1048576 and no cell of the range overflows, the
  function returns a list with one element per row in
  which that cell's position holds the number \<open>0\<close>.
\<close>

theorem read_excel_data_non_numeric_becomes_zero:
  assumes "load_workbook w file_path = Inr sheet"
    and "1 \<le> col" and "col \<le> 16384"
    and "1 \<le> start_row" and "start_row + n \<le> 1048577"
    and "\<forall>k \<in> {0..<n}. py_float (float_of_str w) (sheet (start_row + k) col) \<noteq> Inl OverflowError"
    and "0 \<le> i" and "i < n"
    and "py_float (float_of_str w) (sheet (start_row + i) col) = Inl ValueError
         \<or> py_float (float_of_str w) (sheet (start_row + i) col) = Inl TypeError"
  shows "\<exists>data. read_excel_data w file_path col start_row n = Inr data
           \<and> length data = nat n \<and> data ! nat i = 0"
proof -
  let ?f = "\<lambda>k. float_or_zero (float_of_str w) (sheet (start_row + k) col)"
  have r: "read_excel_data w file_path col start_row n = Inr (map ?f [0..n - 1])"
    using assms(1,2,4,5,6) by (rule read_excel_data_all)
  have "map ?f [0..n - 1] ! nat i = ?f i"
    using assms(7,8) by (simp add: nth_upto)
  moreover have "?f i = 0"
    using assms(9) by (rule float_or_zero_caught)
  ultimately show ?thesis using r by simp
qed

text \<open>
  The theorem at the example workbook: row 10 of column 3 holds the text \<open>n/a\<close>, the
  third of the three rows read from row 8.
\<close>

theorem read_excel_data_non_numeric_becomes_zero_witness:
  "load_workbook example_world ''run1.xlsx'' = Inr example_sheet
   \<and> (3::int) \<le> 16384 \<and> (8::int) + 3 \<le> 1048577
   \<and> py_float (float_of_str example_world) (example_sheet (8 + 2) 3) = Inl ValueError
   \<and> (\<exists>data. read_excel_data example_world ''run1.xlsx'' 3 8 3 = Inr data
         \<and> length data = nat 3 \<and> data ! nat 2 = 0)"
proof -
  have w: "load_workbook example_world ''run1.xlsx'' = Inr example_sheet"
    "float_of_str example_world = decimal_literal"
    by (simp_all add: example_world_def)
  have v: "py_float decimal_literal (example_sheet (8 + 2) 3) = Inl ValueError"
    by (simp add: example_sheet_def decimal_literal_def strip_def is_space_def signed_def
      is_digit_def)
  have "\<exists>data. read_excel_data example_world ''run1.xlsx'' 3 8 3 = Inr data
         \<and> length data = nat 3 \<and> data ! nat 2 = 0"
    using read_excel_data_non_numeric_becomes_zero
      [of example_world "''run1.xlsx''" example_sheet 3 8 3 2]
    by (simp only: w v example_sheet_no_overflow) simp
  then show ?thesis using w v by simp
qed

text \<open>
  Against claim C1 as stated: the text cell \<open>n/a\<close> yields no error; the returned data
  holds \<open>0\<close> in its place.
\<close>

theorem read_excel_data_coerces_text_to_zero:
  "example_sheet 10 3 = StrV ''n/a''
   \<and> read_excel_data example_world ''run1.xlsx'' 3 8 3 = Inr [25, 50, 0]"
  by (simp add: example_read) (simp add: example_sheet_def)

text \<open>
  Claim C10 fails on the code at an integer cell too large for a double: \<^verbatim>\<open>float\<close>
  raises \<^verbatim>\<open>OverflowError\<close>, which the \<^verbatim>\<open>except (ValueError, TypeError)\<close> clause does
  not catch, so \<^verbatim>\<open>read_excel_data\<close> raises instead of returning a list. (For every
  other content \<open>read_excel_data_all\<close> and \<open>read_excel_data_length\<close> give what the
  claim says.)
\<close>

theorem read_excel_data_overflow:
  "huge_sheet 8 3 = IntV (2 ^ 1024)
   \<and> read_excel_data example_world ''huge.xlsx'' 3 8 3 = Inl OverflowError"
  by (simp add: read_excel_data_def example_world_def upto.simps cell_def huge_sheet_def)

section \<open>Pressure and wet-bulb wrappers\<close>

text \<open>A base of at most 4 is far from overflowing the power.\<close>

lemma pressure_power_in_range:
  fixes b :: real
  assumes "0 \<le> b" and "b \<le> 4"
  shows "b powr (52559 / 10000) < 2 ^ 1024"
proof -
  have "b powr (52559 / 10000) \<le> 4 powr (52559 / 10000)"
    using assms by (intro powr_mono2) simp_all
  also have "\<dots> \<le> 4 powr 6"
    by (intro powr_mono) simp_all
  also have "\<dots> = 4 ^ 6"
    by (simp add: powr_numeral)
  also have "\<dots> < (2::real) ^ 1024"
    by simp
  finally show ?thesis .
qed

lemma standard_atm_SI_numeric:
  assumes "- 100000 \<le> h" and "h \<le> 44000"
  shows "standard_atm_SI h = Inr (101325 * (1 - (225577 / 10 ^ 10) * h) powr (52559 / 10000))"
    and "0 < 101325 * (1 - (225577 / 10 ^ 10) * h) powr (52559 / 10000)"
proof -
  have b: "0 < 1 - (225577 / 10 ^ 10) * h" "1 - (225577 / 10 ^ 10) * h \<le> 4"
    using assms by simp_all
  then have "\<not> 2 ^ 1024 \<le> (1 - (225577 / 10 ^ 10) * h) powr (52559 / 10000)"
    using pressure_power_in_range [of "1 - (225577 / 10 ^ 10) * h"] by simp
  with b show "standard_atm_SI h
      = Inr (101325 * (1 - (225577 / 10 ^ 10) * h) powr (52559 / 10000))"
    by (simp add: standard_atm_SI_def Let_def)
  from b show "0 < 101325 * (1 - (225577 / 10 ^ 10) * h) powr (52559 / 10000)"
    by simp
qed

lemma standard_atm_SI_sea_level: "standard_atm_SI 0 = Inr 101325"
  using standard_atm_SI_numeric(1) [of 0] by simp

lemma standard_atm_SI_12000:
  "standard_atm_SI 12000 = Inr (101325 * (7293076 / 10 ^ 7) powr (52559 / 10000))"
  using standard_atm_SI_numeric(1) [of 12000] by simp

text \<open>
  The wet-bulb wrapper only rescales the humidity: at 100 % it asks the library for the
  wet-bulb temperature at relative humidity \<open>1\<close> and returns the answer as it is. The
  script has no shortcut for saturated air.
\<close>

lemma wet_bulb_at_saturation:
  "calculate_wet_bulb_temperature L t 100 p = GetTWetBulbFromRelHum L t 1 p"
  by (simp add: calculate_wet_bulb_temperature_def)

text \<open>
  Claim C3, as amended. \<^verbatim>\<open>calculate_pressure_from_altitude\<close> checks no range: at every
  altitude its outcome is the outcome of the library's \<^verbatim>\<open>GetStandardAtmPressure\<close>.
  Where the library follows its SI relation, that is the positive number
  \<open>101325 * (1 - 2.25577e-05 * h) powr 5.2559\<close> at every altitude from -100000 m to
  44000 m, inside or outside the interval from -5000 m to 11000 m.
\<close>

theorem pressure_has_no_range_check:
  "calculate_pressure_from_altitude L h = GetStandardAtmPressure L h
   \<and> (GetStandardAtmPressure L h = standard_atm_SI h \<and> - 100000 \<le> h \<and> h \<le> 44000 \<longrightarrow>
        calculate_pressure_from_altitude L h
          = Inr (101325 * (1 - (225577 / 10 ^ 10) * h) powr (52559 / 10000))
        \<and> 0 < 101325 * (1 - (225577 / 10 ^ 10) * h) powr (52559 / 10000))"
  using standard_atm_SI_numeric [of h]
  by (simp add: calculate_pressure_from_altitude_def)

text \<open>The theorem at sea level, where the pressure is the reference 101325 Pa.\<close>

theorem pressure_has_no_range_check_witness:
  "GetStandardAtmPressure example_lib 0 = standard_atm_SI 0
   \<and> - 100000 \<le> (0::real) \<and> (0::real) \<le> 44000
   \<and> calculate_pressure_from_altitude example_lib 0 = GetStandardAtmPressure example_lib 0
   \<and> calculate_pressure_from_altitude example_lib 0 = Inr 101325"
proof -
  have l: "GetStandardAtmPressure example_lib 0 = standard_atm_SI 0"
    by (simp add: example_lib_def)
  have a: "- 100000 \<le> (0::real)" "(0::real) \<le> 44000"
    by simp_all
  from pressure_has_no_range_check [of example_lib 0] l a
  have p: "calculate_pressure_from_altitude example_lib 0 = GetStandardAtmPressure example_lib 0"
    and q: "calculate_pressure_from_altitude example_lib 0
              = Inr (101325 * (1 - (225577 / 10 ^ 10) * 0) powr (52559 / 10000))"
    by blast+
  from q have "calculate_pressure_from_altitude example_lib 0 = Inr 101325"
    by simp
  with l a p show ?thesis by blast
qed

text \<open>
  Against claim C3 as stated: at 12000 m, outside the interval, the function returns a
  number.
\<close>

theorem pressure_above_range_is_numeric:
  "calculate_pressure_from_altitude example_lib 12000
     = Inr (101325 * (7293076 / 10 ^ 7) powr (52559 / 10000))"
  by (simp add: calculate_pressure_from_altitude_def example_lib_def standard_atm_SI_12000)

section \<open>CO2 balance\<close>

text \<open>
  Claim C5. The CO2 change is the outlet flow minus the inlet flow, and the label is
  \<open>CO2 Release\<close> exactly when the change is positive, \<open>CO2 Capture\<close> exactly when it
  is negative and \<open>No Change in CO2\<close> exactly when it is zero.
\<close>

theorem co2_change_label_matches_sign:
  "calculate_co2_change flow_in flow_out = flow_out - flow_in
   \<and> (calculate_co2_change_label (calculate_co2_change flow_in flow_out) = ''CO2 Release'')
       = (0 < flow_out - flow_in)
   \<and> (calculate_co2_change_label (calculate_co2_change flow_in flow_out) = ''CO2 Capture'')
       = (flow_out - flow_in < 0)
   \<and> (calculate_co2_change_label (calculate_co2_change flow_in flow_out) = ''No Change in CO2'')
       = (flow_out - flow_in = 0)"
  by (simp add: calculate_co2_change_def calculate_co2_change_label_def)

theorem co2_change_label_matches_sign_witness:
  "calculate_co2_change 800 900 = 100
   \<and> calculate_co2_change_label (calculate_co2_change 800 900) = ''CO2 Release''
   \<and> calculate_co2_change_label (calculate_co2_change 900 800) = ''CO2 Capture''
   \<and> calculate_co2_change_label (calculate_co2_change 800 800) = ''No Change in CO2''"
proof -
  from co2_change_label_matches_sign [of 800 900]
  have a: "calculate_co2_change 800 900 = 900 - 800"
    and b: "(calculate_co2_change_label (calculate_co2_change 800 900) = ''CO2 Release'')
              = (0 < (900::real) - 800)"
    by blast+
  from co2_change_label_matches_sign [of 900 800]
  have c: "(calculate_co2_change_label (calculate_co2_change 900 800) = ''CO2 Capture'')
              = ((800::real) - 900 < 0)"
    by blast
  from co2_change_label_matches_sign [of 800 800]
  have d: "(calculate_co2_change_label (calculate_co2_change 800 800) = ''No Change in CO2'')
              = ((800::real) - 800 = 0)"
    by blast
  have "calculate_co2_change 800 900 = 100" using a by simp
  moreover have "calculate_co2_change_label (calculate_co2_change 800 900) = ''CO2 Release''"
    using b by simp
  moreover have "calculate_co2_change_label (calculate_co2_change 900 800) = ''CO2 Capture''"
    using c by simp
  moreover have "calculate_co2_change_label (calculate_co2_change 800 800) = ''No Change in CO2''"
    using d by simp
  ultimately show ?thesis by blast
qed

section \<open>Resin and chamber geometry\<close>


lemma resin_block_nonzero:
  assumes "d \<noteq> 0" and "m \<noteq> 0" and "rho \<noteq> 0"
  shows "resin_block d m rho =
     Inr \<lparr>single_sphere_surface_area = pi * (d / 1000) ^ 2,
          single_sphere_volume = (4 / 3) * pi * (d / 1000 / 2) ^ 3,
          total_resin_volume = m / rho,
          rough_number_of_spheres = (m / rho) / ((4 / 3) * pi * (d / 1000 / 2) ^ 3),
          total_surface_area =
            (m / rho) / ((4 / 3) * pi * (d / 1000 / 2) ^ 3) * (pi * (d / 1000) ^ 2)\<rparr>"
  using assms by (simp add: resin_block_def py_div_def Let_def)

text \<open>
  Claim C6. With bead diameter 1 mm, mass 1 kg and density 1000 kg per cubic metre the resin block
  gives the total volume \<open>1 / 1000\<close> cubic metres (mass by density), the single-bead volume
  \<open>(4 / 3) * pi * r ^ 3\<close> for the radius \<open>r = 0.0005\<close> m, and the bead count
  \<open>0.001 / ((4 / 3) * pi * 0.0005 ^ 3)\<close>.
\<close>

theorem resin_block_unit_bead:
  "resin_block 1 1 1000 =
     Inr \<lparr>single_sphere_surface_area = pi * (1 / 1000) ^ 2,
          single_sphere_volume = (4 / 3) * pi * (5 / 10000) ^ 3,
          total_resin_volume = 1 / 1000,
          rough_number_of_spheres = (1 / 1000) / ((4 / 3) * pi * (5 / 10000) ^ 3),
          total_surface_area =
            (1 / 1000) / ((4 / 3) * pi * (5 / 10000) ^ 3) * (pi * (1 / 1000) ^ 2)\<rparr>"
  by (simp add: resin_block_def py_div_def Let_def)




text \<open>
  Claim C7, as amended. The chamber block takes the chamber diameter in centimetres (the
  area \<open>pi * r ^ 2\<close> is in square centimetres and is divided by 10000; the message prints
  ten times the diameter as millimetres). For a diameter whose magnitude lies between
  \<open>1 / 10 ^ 100\<close> and \<open>10 ^ 100\<close> and an air flow of magnitude at most \<open>10 ^ 100\<close>, the
  gas speed is the air flow converted from L/s to cubic metres per second, divided by
  the area \<open>pi * r ^ 2\<close> of the diameter converted from cm to m. (Beyond such magnitudes
  the square underflows to zero or overflows in the script's floats, and it raises.)
\<close>

theorem chamber_speed_from_centimetres:
  assumes "1 / 10 ^ 100 \<le> \<bar>d\<bar>" and "\<bar>d\<bar> \<le> 10 ^ 100" and "\<bar>q\<bar> \<le> 10 ^ 100"
  shows "\<exists>c. chamber_block d q = Inr c
           \<and> air_m3_s c = q / 1000
           \<and> c_area_m2 c = pi * (d / 100 / 2) ^ 2
           \<and> chamber_speed c = (q / 1000) / (pi * (d / 100 / 2) ^ 2)"
proof -
  have "d \<noteq> 0" using assms(1) by auto
  then show ?thesis
    by (simp add: chamber_block_def py_div_def Let_def power2_eq_square)
qed

theorem chamber_speed_from_centimetres_witness:
  "1 / 10 ^ 100 \<le> \<bar>10::real\<bar> \<and> \<bar>10::real\<bar> \<le> 10 ^ 100 \<and> \<bar>2::real\<bar> \<le> 10 ^ 100
   \<and> (\<exists>c. chamber_block 10 2 = Inr c
           \<and> air_m3_s c = 2 / 1000
           \<and> c_area_m2 c = pi * (10 / 100 / 2) ^ 2
           \<and> chamber_speed c = (2 / 1000) / (pi * (10 / 100 / 2) ^ 2))"
proof -
  have h: "1 / 10 ^ 100 \<le> \<bar>10::real\<bar>" "\<bar>10::real\<bar> \<le> 10 ^ 100" "\<bar>2::real\<bar> \<le> 10 ^ 100"
    by simp_all
  from chamber_speed_from_centimetres [OF h] h show ?thesis by simp
qed

text \<open>
  Against claim C7 as stated: for the diameter 1000 and the air flow 1000 L/s the speed
  is \<open>1 / (25 * pi)\<close>, not the \<open>4 / pi\<close> that a diameter of 1000 mm would give.
\<close>

theorem chamber_speed_not_from_millimetres:
  "chamber_block 1000 1000 =
     Inr \<lparr>chamber_area = pi * 250000, c_area_m2 = pi * 25, air_m3_s = 1,
          chamber_speed = 1 / (pi * 25)\<rparr>
   \<and> 1 / (pi * 25) \<noteq> (1000 / 1000) / (pi * (1000 / 1000 / 2) ^ 2)"
proof -
  have "1 / (pi * 25) \<noteq> 4 / pi"
    using pi_gt_zero by (simp add: divide_simps)
  then show ?thesis
    by (simp add: chamber_block_def py_div_def Let_def power2_eq_square)
qed

section \<open>The report\<close>

lemma example_lib_simps:
  "lib example_world = example_lib"
  "calculate_pressure_from_altitude example_lib 0 = Inr 101325"
  "calculate_wet_bulb_temperature example_lib t rh p = Inr 18"
  "calculate_psychrometrics example_lib t twb p
     = Inr (1 / 100, 14, 1 / 2, 1600, 50000, 17 / 20, 1 / 2)"
  "calculate_dry_air_enthalpy example_lib t = Inr 25000"
  "calculate_air_density example_lib t hr p = Inr (6 / 5)"
  by (simp_all add: example_world_def example_lib_def calculate_pressure_from_altitude_def
      calculate_wet_bulb_temperature_def calculate_psychrometrics_def
      calculate_dry_air_enthalpy_def calculate_air_density_def standard_atm_SI_sea_level)

lemma example_inlet:
  "data_set example_world ''run1.xlsx'' 8 101325 2 = Inr (inlet example_report)"
  by (simp add: data_set_def example_read example_lib_simps example_report_def
      calculate_co2_flow_def)

lemma example_outlet:
  "data_set example_world ''run1.xlsx'' 12 101325 2 = Inr (outlet example_report)"
  by (simp add: data_set_def example_read_outlet example_lib_simps example_report_def
      calculate_co2_flow_def)

lemma example_resin: "resin_block 1 1 1000 = Inr (resin example_report)"
  by (simp add: resin_block_nonzero example_report_def)

lemma example_chamber: "chamber_block 10 2 = Inr (chamber example_report)"
  by (simp add: chamber_block_def py_div_def Let_def example_report_def power2_eq_square)

lemma example_run: "process_file_body example_world ''run1'' = Inr example_report"
  by (simp add: process_file_body_def example_altitude_and_airflow example_lib_simps
      example_inlet example_outlet example_resin example_chamber)
    (simp add: example_report_def calculate_co2_change_def calculate_co2_change_label_def
      calculate_energy_flux_def)

text \<open>
  What a data set that was computed says about the library's answers.
\<close>

lemma data_set_Inr:
  assumes "data_set w file_path start_row p q = Inr s"
  shows "calculate_air_density (lib w) (dry_bulb_temperature s) (humidity_ratio s) p
           = Inr (air_density s)
       \<and> calculate_psychrometrics (lib w) (dry_bulb_temperature s) (wet_bulb_temperature s) p
           = Inr (humidity_ratio s, dew_point_temperature s, calc_relative_humidity s,
                  partial_pressure s, moist_air_enthalpy s, specific_volume s,
                  degree_of_saturation s)"
proof -
  from assms obtain data where
    u: "(case data of
           [t_db, rh, co2] \<Rightarrow>
             bind (calculate_wet_bulb_temperature (lib w) t_db rh p) (\<lambda>t_wb.
             bind (calculate_psychrometrics (lib w) t_db t_wb p)
               (\<lambda>(hum_ratio, t_dew, calc_rh, p_vap, h_moist, v_spec, deg_sat).
             bind (calculate_dry_air_enthalpy (lib w) t_db) (\<lambda>h_dry.
             bind (calculate_air_density (lib w) t_db hum_ratio p) (\<lambda>density.
               Inr \<lparr>dry_bulb_temperature = t_db,
                    relative_humidity = rh,
                    co2_level = co2,
                    wet_bulb_temperature = t_wb,
                    humidity_ratio = hum_ratio,
                    dew_point_temperature = t_dew,
                    calc_relative_humidity = calc_rh,
                    partial_pressure = p_vap,
                    moist_air_enthalpy = h_moist,
                    specific_volume = v_spec,
                    degree_of_saturation = deg_sat,
                    dry_air_enthalpy = h_dry,
                    air_density = density,
                    co2_flow = calculate_co2_flow co2 q\<rparr>))))
         | _ \<Rightarrow> Inl ValueError) = Inr s"
    unfolding data_set_def bind_eq_Inr by blast
  from u obtain t_db rh co2 where d: "data = [t_db, rh, co2]"
    by (cases rule: unpack3 [of data]) auto
  from u show ?thesis
    unfolding d by (auto simp: bind_eq_Inr)
qed

text \<open>
  Claim C8. In every report that is computed, the mass flow is the outlet air density
  (the library's moist-air density at the outlet station) times the air flow converted
  from L/s to cubic metres per second, and the energy flux of each station is that station's moist-air
  enthalpy times this one mass flow.
\<close>

theorem mass_flow_and_energy_flux:
  assumes "process_file_body w entry = Inr r"
  shows "mass_flow r = air_density (outlet r) * (air_flow r / 1000)
       \<and> energy_flux_inlet r = moist_air_enthalpy (inlet r) * mass_flow r
       \<and> energy_flux_outlet r = moist_air_enthalpy (outlet r) * mass_flow r
       \<and> calculate_air_density (lib w) (dry_bulb_temperature (outlet r))
             (humidity_ratio (outlet r)) (pressure r) = Inr (air_density (outlet r))"
proof -
  from assms obtain inl outl where
    o: "data_set w (entry @ ''.xlsx'') 12 (pressure r) (air_flow r) = Inr outl"
    and r: "outlet r = outl" "inlet r = inl"
      "mass_flow r = air_density outl * (air_flow r / 1000)"
      "energy_flux_inlet r = calculate_energy_flux (moist_air_enthalpy inl) (mass_flow r)"
      "energy_flux_outlet r = calculate_energy_flux (moist_air_enthalpy outl) (mass_flow r)"
    by (auto simp: process_file_body_def Let_def bind_eq_Inr split: prod.splits)
  from data_set_Inr [OF o] r show ?thesis
    by (simp add: calculate_energy_flux_def)
qed

theorem mass_flow_and_energy_flux_witness:
  "process_file_body example_world ''run1'' = Inr example_report
   \<and> mass_flow example_report = 6 / 5 * (2 / 1000)
   \<and> energy_flux_inlet example_report = 50000 * mass_flow example_report
   \<and> energy_flux_outlet example_report = 50000 * mass_flow example_report"
  using mass_flow_and_energy_flux [of example_world "''run1''" example_report]
  by (simp add: example_run) (simp add: example_report_def)

text \<open>
  The body ends at the first step that raises, with that step's exception.
\<close>

lemma process_file_body_first_failure:
  "get_altitude_and_airflow w (entry @ ''.xlsx'') = Inl e
     \<Longrightarrow> process_file_body w entry = Inl e"
  "get_altitude_and_airflow w (entry @ ''.xlsx'') = Inr (alt, flow, rd, rm, rho, cd)
     \<Longrightarrow> calculate_pressure_from_altitude (lib w) alt = Inl e
     \<Longrightarrow> process_file_body w entry = Inl e"
  "get_altitude_and_airflow w (entry @ ''.xlsx'') = Inr (alt, flow, rd, rm, rho, cd)
     \<Longrightarrow> calculate_pressure_from_altitude (lib w) alt = Inr p
     \<Longrightarrow> resin_block rd rm rho = Inl e
     \<Longrightarrow> process_file_body w entry = Inl e"
  "get_altitude_and_airflow w (entry @ ''.xlsx'') = Inr (alt, flow, rd, rm, rho, cd)
     \<Longrightarrow> calculate_pressure_from_altitude (lib w) alt = Inr p
     \<Longrightarrow> resin_block rd rm rho = Inr rv
     \<Longrightarrow> data_set w (entry @ ''.xlsx'') 8 p flow = Inl e
     \<Longrightarrow> process_file_body w entry = Inl e"
  by (simp_all add: process_file_body_def)

text \<open>
  Claim C2, as amended. When a step of the body of \<^verbatim>\<open>process_file\<close> raises, the
  bare \<^verbatim>\<open>except: pass\<close> discards the exception: whatever its kind, the function
  returns normally and leaves the widgets as they were, so that no error and no partial
  report reaches the caller. Only a body that raises nothing replaces the output by the
  report.
\<close>

theorem process_file_discards_errors:
  "(process_file_body w (entry_file_path g) = Inl e \<longrightarrow> process_file w g = Inr g)
   \<and> (process_file_body w (entry_file_path g) = Inr m \<longrightarrow>
        process_file w g = Inr (g\<lparr>text_output := Some m\<rparr>))"
  by (simp add: process_file_def)

theorem process_file_discards_errors_witness:
  "process_file_body example_world
       (entry_file_path \<lparr>entry_file_path = ''missing'', text_output = None\<rparr>)
     = Inl FileNotFoundError
   \<and> process_file example_world \<lparr>entry_file_path = ''missing'', text_output = None\<rparr>
       = Inr \<lparr>entry_file_path = ''missing'', text_output = None\<rparr>
   \<and> process_file_body example_world
       (entry_file_path \<lparr>entry_file_path = ''run1'', text_output = None\<rparr>)
     = Inr example_report
   \<and> process_file example_world \<lparr>entry_file_path = ''run1'', text_output = None\<rparr>
       = Inr \<lparr>entry_file_path = ''run1'', text_output = Some example_report\<rparr>"
  using process_file_discards_errors
    [of example_world "\<lparr>entry_file_path = ''missing'', text_output = None\<rparr>"
      FileNotFoundError example_report]
    process_file_discards_errors
    [of example_world "\<lparr>entry_file_path = ''run1'', text_output = None\<rparr>"
      FileNotFoundError example_report]
  by (simp add: example_missing example_run)

text \<open>
  Against claim C2 as stated: a missing workbook makes the body fail, and the caller of
  \<^verbatim>\<open>process_file\<close> receives no error; and the run on the example workbook, whose inlet
  CO2 cell holds text, is completed with \<open>0\<close> substituted for that reading.
\<close>

theorem process_file_surfaces_no_error:
  "process_file_body example_world ''missing'' = Inl FileNotFoundError
   \<and> process_file example_world \<lparr>entry_file_path = ''missing'', text_output = None\<rparr>
       = Inr \<lparr>entry_file_path = ''missing'', text_output = None\<rparr>
   \<and> example_sheet 10 3 = StrV ''n/a''
   \<and> process_file example_world \<lparr>entry_file_path = ''run1'', text_output = None\<rparr>
       = Inr \<lparr>entry_file_path = ''run1'', text_output = Some example_report\<rparr>
   \<and> co2_level (inlet example_report) = 0"
  by (simp add: process_file_def example_missing example_run)
    (simp add: example_sheet_def example_report_def)

end
